theory Spec2Isabelle
  imports Complex_Main "HOL-Library.Log_Nat" "HOL-Library.Signed_Division"
begin

section \<open>Binary floating point as rounded rationals\<close>

text \<open>
  The simulation of \<^verbatim>\<open>src/main.cpp\<close> computes with \<^verbatim>\<open>float\<close> (binary32) and
  \<^verbatim>\<open>double\<close> (binary64). A finite value of either type is a rational number, and every
  arithmetic operation yields the exact result rounded to the nearest value of the
  result type, ties to the even significand. The model keeps every value as the
  rational it denotes and writes each rounding out: \<open>fl32\<close> where the C++ expression has
  type \<^verbatim>\<open>float\<close>, \<open>fl64\<close> where it has type \<^verbatim>\<open>double\<close> (the usual arithmetic
  conversions promote \<^verbatim>\<open>float\<close> operands to \<^verbatim>\<open>double\<close> exactly, and expressions are
  evaluated in the precision of their type). The exponent range is unbounded in the
  model: infinities, NaN and subnormal numbers are outside it.
\<close>

definition rne :: "rat \<Rightarrow> int" where
  "rne r = (let f = \<lfloor>r\<rfloor>; d = r - of_int f in
     if d < 1 / 2 then f
     else if 1 / 2 < d then f + 1
     else if even f then f else f + 1)"

text \<open>For \<open>0 < r\<close>, \<open>expo r\<close> is the integer \<open>e\<close> with \<open>2 powi e \<le> r < 2 powi (e + 1)\<close>.\<close>

definition expo :: "rat \<Rightarrow> int" where
  "expo r = (if 1 \<le> r then bitlen \<lfloor>r\<rfloor> - 1 else - bitlen (\<lceil>1 / r\<rceil> - 1))"

text \<open>Rounding to a significand of \<open>p\<close> bits.\<close>

definition round_to :: "nat \<Rightarrow> rat \<Rightarrow> rat" where
  "round_to p r = (if r = 0 then 0 else
     let q = 2 powi (expo \<bar>r\<bar> - int p + 1)
     in sgn r * of_int (rne (\<bar>r\<bar> / q)) * q)"

definition fl32 :: "rat \<Rightarrow> rat" where
  "fl32 = round_to 24"

definition fl64 :: "rat \<Rightarrow> rat" where
  "fl64 = round_to 53"


text \<open>
  \<^verbatim>\<open>static_cast<int>(d)\<close> truncates towards zero; the behaviour is undefined when the
  truncated value is not an \<^verbatim>\<open>int\<close> (32 bits), which the model reports as \<open>None\<close>.
  The operator \<^verbatim>\<open>%\<close> on \<^verbatim>\<open>int\<close> is the remainder of the truncating division, \<open>smod\<close>.
\<close>

definition cast_int :: "rat \<Rightarrow> int option" where
  "cast_int d = (let n = (if 0 \<le> d then \<lfloor>d\<rfloor> else \<lceil>d\<rceil>)
     in if - (2 ^ 31) \<le> n \<and> n < 2 ^ 31 then Some n else None)"

section \<open>Constants\<close>

definition SPRAY_WIDTH :: rat where "SPRAY_WIDTH = fl32 (4 / 10)"
definition PELICAN_WIDTH :: rat where "PELICAN_WIDTH = fl32 (2 / 10)"
definition WAVE_SPEED :: rat where "WAVE_SPEED = fl32 (4 / 10)"
definition BOAT_POS_X :: rat where "BOAT_POS_X = fl32 (1 / 10)"
definition BOAT_WIDTH :: rat where "BOAT_WIDTH = fl32 (2 / 10)"
definition SEA_LEVEL :: rat where "SEA_LEVEL = fl32 (8 / 10)"
definition GRAVITY :: rat where "GRAVITY = fl32 (9 / 10000)"

text \<open>\<^verbatim>\<open>glm::pi<double>()\<close>: the decimal expansion of \<open>\<pi>\<close> that glm casts to \<^verbatim>\<open>double\<close>.\<close>

definition pi_double :: rat where
  "pi_double = fl64 (314159265358979323846264338327950288 / 10 ^ 35)"

section \<open>Hazards: \<^verbatim>\<open>Object\<close>, \<^verbatim>\<open>Spray\<close>, \<^verbatim>\<open>Pelican\<close>\<close>

text \<open>\<^verbatim>\<open>glm::vec2\<close>, with the components \<^verbatim>\<open>x\<close> and \<^verbatim>\<open>y\<close> as \<open>vx\<close> and \<open>vy\<close>.\<close>

record vec2 =
  vx :: rat
  vy :: rat

text \<open>
  The members of \<^verbatim>\<open>Object\<close> (\<^verbatim>\<open>spawnTime_\<close>, \<^verbatim>\<open>pos_\<close>, \<^verbatim>\<open>visible_\<close>); \<^verbatim>\<open>Pelican\<close> adds
  \<^verbatim>\<open>animIndex_\<close>, \<^verbatim>\<open>Spray\<close> adds nothing. An element of the deque of
  \<^verbatim>\<open>shared_ptr<Object>\<close> is an \<open>object\<close>: one of the two derived classes.
\<close>

record Object =
  spawnTime :: rat
  pos :: vec2
  visible :: bool

record PelicanObj = Object +
  animIndex :: int

datatype object = is_Spray: Spray Object | is_Pelican: Pelican PelicanObj

text \<open>
  The constructors set \<^verbatim>\<open>spawnTime_\<close>, \<^verbatim>\<open>visible_\<close> and \<^verbatim>\<open>animIndex_\<close> and leave
  \<^verbatim>\<open>pos_\<close> to the default constructor of \<^verbatim>\<open>glm::vec2\<close>; what it holds until the first
  \<^verbatim>\<open>update\<close> is the parameter \<open>p0\<close>.
\<close>

definition Spray_new :: "rat \<Rightarrow> vec2 \<Rightarrow> Object" where
  "Spray_new st p0 = \<lparr>spawnTime = st, pos = p0, visible = True\<rparr>"

definition Pelican_new :: "rat \<Rightarrow> vec2 \<Rightarrow> PelicanObj" where
  "Pelican_new st p0 = \<lparr>spawnTime = st, pos = p0, visible = True, animIndex = 0\<rparr>"

text \<open>
  \<^verbatim>\<open>std::cos\<close> on \<^verbatim>\<open>double\<close> belongs to the C library, not to the repository: it is the
  parameter \<open>cosd\<close> of everything that updates a \<^verbatim>\<open>Spray\<close>.
\<close>

definition Spray_update :: "(rat \<Rightarrow> rat) \<Rightarrow> rat \<Rightarrow> Object \<Rightarrow> Object" where
  "Spray_update cosd t ob = ob
     \<lparr>pos := \<lparr>vx = fl32 (fl64 (fl32 (9 / 10) - fl64 (WAVE_SPEED * fl64 (t - spawnTime ob)))),
              vy = fl32 (fl64 (fl32 (75 / 100)
                     + fl64 (fl64 (25 / 100) * cosd (fl64 (2 * fl64 (t - spawnTime ob))))))\<rparr>,
      visible := (t \<le> fl64 (spawnTime ob + pi_double))\<rparr>"

definition Spray_hit :: "Object \<Rightarrow> rat \<Rightarrow> bool" where
  "Spray_hit ob boatPosY \<longleftrightarrow>
     fl32 (BOAT_POS_X + BOAT_WIDTH) > fl64 (vx (pos ob) + fl64 (fl64 (5 / 10) * SPRAY_WIDTH))
     \<and> BOAT_POS_X < fl32 (vx (pos ob) + SPRAY_WIDTH)
     \<and> boatPosY > vy (pos ob)"

definition Pelican_update :: "rat \<Rightarrow> PelicanObj \<Rightarrow> PelicanObj option" where
  "Pelican_update t ob =
     (let px = fl32 (fl64 (fl32 1 - fl64 (fl32 (8 / 10) * fl64 (t - spawnTime ob))))
      in case cast_int (fl64 (fl64 (t - spawnTime ob) / fl64 (25 / 100))) of
           None \<Rightarrow> None
         | Some n \<Rightarrow> Some (ob
             \<lparr>pos := \<lparr>vx = px, vy = fl32 (5 / 100)\<rparr>,
              visible := (px \<ge> - PELICAN_WIDTH),
              animIndex := n smod 2\<rparr>))"

definition Pelican_hit :: "PelicanObj \<Rightarrow> rat \<Rightarrow> bool" where
  "Pelican_hit ob boatPosY \<longleftrightarrow>
     fl32 (BOAT_POS_X + BOAT_WIDTH) > vx (pos ob)
     \<and> BOAT_POS_X < fl32 (vx (pos ob) + PELICAN_WIDTH)
     \<and> fl32 (boatPosY - fl32 (2 / 10)) < fl32 (vy (pos ob) + fl32 (2 / 10))"

text \<open>Virtual dispatch.\<close>

fun isVisible :: "object \<Rightarrow> bool" where
  "isVisible (Spray ob) = visible ob"
| "isVisible (Pelican ob) = visible ob"

fun getSpawnTime :: "object \<Rightarrow> rat" where
  "getSpawnTime (Spray ob) = spawnTime ob"
| "getSpawnTime (Pelican ob) = spawnTime ob"

fun update :: "(rat \<Rightarrow> rat) \<Rightarrow> rat \<Rightarrow> object \<Rightarrow> object option" where
  "update cosd t (Spray ob) = Some (Spray (Spray_update cosd t ob))"
| "update cosd t (Pelican ob) = map_option Pelican (Pelican_update t ob)"

fun hit :: "object \<Rightarrow> rat \<Rightarrow> bool" where
  "hit (Spray ob) boatPosY = Spray_hit ob boatPosY"
| "hit (Pelican ob) boatPosY = Pelican_hit ob boatPosY"

section \<open>The session: the body of the main loop\<close>

text \<open>
  The variables of \<^verbatim>\<open>main\<close> that live across frames. The random engine is not among
  them: what the frame draws from it is part of the frame's input.
\<close>

record state =
  boatPosY :: rat
  boatVelY :: rat
  grounded :: bool
  objects :: "object list"
  interval :: rat
  gameover :: bool
  time :: rat

text \<open>
  What one iteration of the loop reads from outside: the two keys, the clock
  (\<^verbatim>\<open>glfwGetTime()\<close>), the samples \<^verbatim>\<open>typeDist(randEngine)\<close> and
  \<^verbatim>\<open>intervalDist(randEngine)\<close> (used only when the frame spawns), and the contents of a
  default-constructed \<^verbatim>\<open>glm::vec2\<close>.
\<close>

record input =
  retryKeyPressed :: bool
  jumpKeyPressed :: bool
  glfwGetTime :: rat
  typeDist :: bool
  intervalDist :: rat
  vec2_default :: vec2

text \<open>Lines 385 to 399: \<open>t0\<close> and \<open>t1\<close> are the two clock readings before the loop.\<close>

definition init :: "rat \<Rightarrow> rat \<Rightarrow> state" where
  "init t0 t1 = \<lparr>boatPosY = SEA_LEVEL, boatVelY = fl32 0, grounded = True, objects = [],
     interval = t0, gameover = False, time = t1\<rparr>"

text \<open>Lines 413 to 426: the jump and gravity of the boat.\<close>

definition vessel :: "bool \<Rightarrow> state \<Rightarrow> state" where
  "vessel jumpKey s =
     (if grounded s then
        (if jumpKey then s\<lparr>boatVelY := fl32 (boatVelY s - fl32 (3 / 100)), grounded := False\<rparr>
         else s)
      else if boatPosY s > SEA_LEVEL then
        s\<lparr>grounded := True, boatPosY := SEA_LEVEL, boatVelY := fl32 0\<rparr>
      else
        s\<lparr>boatPosY := fl32 (boatPosY s + boatVelY s),
          boatVelY := fl32 (boatVelY s + GRAVITY)\<rparr>)"

text \<open>Lines 428 to 433: the loop over the deque that stops at the first hit.\<close>

fun collision :: "object list \<Rightarrow> rat \<Rightarrow> bool" where
  "collision [] boatPos = False"
| "collision (ob # obs) boatPos = (if hit ob boatPos then True else collision obs boatPos)"

text \<open>Lines 435 to 437: \<^verbatim>\<open>pop_front\<close> while the front is not visible.\<close>

fun cull :: "object list \<Rightarrow> object list" where
  "cull [] = []"
| "cull (ob # obs) = (if \<not> isVisible ob then cull obs else ob # obs)"

text \<open>Lines 439 to 446: the spawn test, and the new object and interval.\<close>

definition spawn_due :: "rat \<Rightarrow> rat \<Rightarrow> object list \<Rightarrow> bool" where
  "spawn_due t iv obs \<longleftrightarrow> obs = [] \<or> t > fl64 (getSpawnTime (last obs) + iv)"

definition spawn :: "input \<Rightarrow> rat \<Rightarrow> rat \<Rightarrow> object list \<Rightarrow> object list \<times> rat" where
  "spawn inp t iv obs =
     (if spawn_due t iv obs then
        (obs @ [if typeDist inp then Spray (Spray_new t (vec2_default inp))
                else Pelican (Pelican_new t (vec2_default inp))],
         intervalDist inp)
      else (obs, iv))"

text \<open>Lines 448 to 450: \<^verbatim>\<open>update(time)\<close> on every element, in order.\<close>

fun update_all :: "(rat \<Rightarrow> rat) \<Rightarrow> rat \<Rightarrow> object list \<Rightarrow> object list option" where
  "update_all cosd t [] = Some []"
| "update_all cosd t (ob # obs) =
     (case update cosd t ob of
        None \<Rightarrow> None
      | Some ob' \<Rightarrow> map_option ((#) ob') (update_all cosd t obs))"

text \<open>Lines 428 to 433 in the loop body: a hit sets \<^verbatim>\<open>gameover\<close>, nothing else.\<close>

definition detect :: "state \<Rightarrow> state" where
  "detect s = (if collision (objects s) (boatPosY s) then s\<lparr>gameover := True\<rparr> else s)"

text \<open>Lines 435 to 450 in the loop body: cull, spawn, update, at the frame's time.\<close>

definition registry :: "(rat \<Rightarrow> rat) \<Rightarrow> input \<Rightarrow> state \<Rightarrow> state option" where
  "registry cosd inp s =
     (let (obs, iv) = spawn inp (time s) (interval s) (cull (objects s))
      in map_option (\<lambda>obs'. s\<lparr>objects := obs', interval := iv\<rparr>)
           (update_all cosd (time s) obs))"

text \<open>
  Lines 401 to 451: one iteration of the loop, up to the drawing. \<open>None\<close> is the
  undefined behaviour of \<^verbatim>\<open>Pelican::update\<close>.
\<close>

definition frame :: "(rat \<Rightarrow> rat) \<Rightarrow> input \<Rightarrow> state \<Rightarrow> state option" where
  "frame cosd inp s =
     (if gameover s then
        (if retryKeyPressed inp then
           Some (s\<lparr>gameover := False, objects := [], boatPosY := SEA_LEVEL,
                   boatVelY := fl32 0, grounded := True\<rparr>)
         else Some s)
      else
        registry cosd inp
          (detect (vessel (jumpKeyPressed inp) (s\<lparr>time := glfwGetTime inp\<rparr>))))"

section \<open>Notions used to state the properties\<close>

text \<open>The invariant of the boat: on the water it rests at sea level.\<close>

definition vessel_inv :: "state \<Rightarrow> bool" where
  "vessel_inv s \<longleftrightarrow> (grounded s \<longrightarrow> boatVelY s = 0 \<and> boatPosY s = SEA_LEVEL)"

text \<open>
  The states of \<open>n\<close> consecutive frames in which the jump key is up, as far as the
  boat is concerned: the first is \<open>s\<close>, each next one is \<open>vessel False\<close> of the one before.
\<close>

fun flight :: "nat \<Rightarrow> state \<Rightarrow> state list" where
  "flight 0 s = []"
| "flight (Suc n) s = s # flight n (vessel False s)"

text \<open>
  The theorems hold for every \<open>cosd\<close>. A closed instance has to name one; those below
  state nothing that depends on its values.
\<close>

definition cos_sample :: "rat \<Rightarrow> rat" where
  "cos_sample a = 1"

definition origin :: vec2 where
  "origin = \<lparr>vx = 0, vy = 0\<rparr>"

text \<open>A first frame at time 0 that spawns a pelican, and the pelican it leaves.\<close>

definition inp0 :: input where
  "inp0 = \<lparr>retryKeyPressed = False, jumpKeyPressed = False, glfwGetTime = 0,
     typeDist = False, intervalDist = 2, vec2_default = origin\<rparr>"

definition first_pelican :: PelicanObj where
  "first_pelican = \<lparr>spawnTime = 0, pos = \<lparr>vx = 1, vy = 13421773 / 268435456\<rparr>,
     visible = True, animIndex = 0\<rparr>"

text \<open>
  A frame in which the boat, in the air, runs into a pelican: the state before
  (the boat is where frame 28 of a jump puts it, the pelican was spawned at time 0 and
  last updated at time 1), the input (time 65/64, no key), and the state after.
\<close>

definition s_hit :: state where
  "s_hit = \<lparr>boatPosY = 5036525 / 16777216, boatVelY = - (161061 / 33554432),
     grounded = False,
     objects = [Pelican \<lparr>spawnTime = 0,
        pos = \<lparr>vx = 3355443 / 16777216, vy = 13421773 / 268435456\<rparr>,
        visible = True, animIndex = 0\<rparr>],
     interval = 1, gameover = False, time = 1\<rparr>"

definition inp_hit :: input where
  "inp_hit = \<lparr>retryKeyPressed = False, jumpKeyPressed = False, glfwGetTime = 65 / 64,
     typeDist = False, intervalDist = 2, vec2_default = origin\<rparr>"

definition s_after :: state where
  "s_after = \<lparr>boatPosY = 9911989 / 33554432, boatVelY = - (8375169 / 2147483648),
     grounded = False,
     objects = [Pelican \<lparr>spawnTime = 0,
         pos = \<lparr>vx = 12582911 / 67108864, vy = 13421773 / 268435456\<rparr>,
         visible = True, animIndex = 0\<rparr>,
       Pelican \<lparr>spawnTime = 65 / 64, pos = \<lparr>vx = 1, vy = 13421773 / 268435456\<rparr>,
         visible = True, animIndex = 0\<rparr>],
     interval = 2, gameover = True, time = 65 / 64\<rparr>"

text \<open>A spray spawned at time 0 and a pelican spawned at time 1, both updated at time 3.\<close>

definition spray_at3 :: object where
  "spray_at3 = Spray (Spray_update cos_sample 3 (Spray_new 0 origin))"

definition pelican_at3 :: object where
  "pelican_at3 = Pelican \<lparr>spawnTime = 1,
     pos = \<lparr>vx = - (5033165 / 8388608), vy = 13421773 / 268435456\<rparr>,
     visible = False, animIndex = 0\<rparr>"

text \<open>Two pelicans, spawned at times 0 and 1, after \<^verbatim>\<open>update(1.2)\<close>.\<close>

definition pelican0_at_1_2 :: object where
  "pelican0_at_1_2 = Pelican \<lparr>spawnTime = 0,
     pos = \<lparr>vx = 5368707 / 134217728, vy = 13421773 / 268435456\<rparr>,
     visible = True, animIndex = 0\<rparr>"

definition pelican1_at_1_2 :: object where
  "pelican1_at_1_2 = Pelican \<lparr>spawnTime = 1,
     pos = \<lparr>vx = 14092861 / 16777216, vy = 13421773 / 268435456\<rparr>,
     visible = True, animIndex = 0\<rparr>"


text \<open>
  The boat's three variables, and what they are in the 70 frames that start with a
  jump from rest at sea level and have the jump key up afterwards (frame 0 is the frame
  of the jump): position, velocity, \<open>grounded\<close>.
\<close>

definition boat_of :: "state \<Rightarrow> rat \<times> rat \<times> bool" where
  "boat_of s = (boatPosY s, boatVelY s, grounded s)"

definition jump_table :: "(rat \<times> rat \<times> bool) list" where
  "jump_table = [
   (13421773 / 16777216, - (16106127 / 536870912), False),
   (12918457 / 16777216, - (15622943 / 536870912), False),
   (388445 / 524288, - (15139759 / 536870912), False),
   (11957123 / 16777216, - (14656575 / 536870912), False),
   (11499105 / 16777216, - (14173391 / 536870912), False),
   (11056187 / 16777216, - (13690207 / 536870912), False),
   (664273 / 1048576, - (13207023 / 536870912), False),
   (10215649 / 16777216, - (12723839 / 536870912), False),
   (9818029 / 16777216, - (12240655 / 536870912), False),
   (9435509 / 16777216, - (11757471 / 536870912), False),
   (1133511 / 2097152, - (11274287 / 536870912), False),
   (8715767 / 16777216, - (10791103 / 536870912), False),
   (8378545 / 16777216, - (10307919 / 536870912), False),
   (16112845 / 33554432, - (9824735 / 536870912), False),
   (15498799 / 33554432, - (9341551 / 536870912), False),
   (1864369 / 4194304, - (8858367 / 536870912), False),
   (1795163 / 4194304, - (8375183 / 536870912), False),
   (13837855 / 33554432, - (7891999 / 536870912), False),
   (13344605 / 33554432, - (7408815 / 536870912), False),
   (6440777 / 16777216, - (6925631 / 536870912), False),
   (6224351 / 16777216, - (6442447 / 536870912), False),
   (12046049 / 33554432, - (5959263 / 536870912), False),
   (11673595 / 33554432, - (5476079 / 536870912), False),
   (2832835 / 8388608, - (4992895 / 536870912), False),
   (2754821 / 8388608, - (4509711 / 536870912), False),
   (10737427 / 33554432, - (16106109 / 2147483648), False),
   (10485769 / 33554432, - (7086687 / 1073741824), False),
   (5132155 / 16777216, - (12240639 / 2147483648), False),
   (5036525 / 16777216, - (161061 / 33554432), False),
   (9911989 / 33554432, - (8375169 / 2147483648), False),
   (9781127 / 33554432, - (3221217 / 1073741824), False),
   (605029 / 2097152, - (4509699 / 2147483648), False),
   (600625 / 2097152, - (10307855 / 8589934592), False),
   (9569735 / 33554432, - (1288457 / 4294967296), False),
   (9559669 / 33554432, 5154027 / 8589934592, False),
   (4789901 / 16777216, 1610621 / 1073741824, False),
   (4815067 / 16777216, 5153977 / 2147483648, False),
   (9710665 / 33554432, 885839 / 268435456, False),
   (9821395 / 33554432, 9019447 / 2147483648, False),
   (2490581 / 8388608, 5476091 / 1073741824, False),
   (2533363 / 8388608, 12884917 / 2147483648, False),
   (10334779 / 33554432, 3704413 / 536870912, False),
   (10566305 / 33554432, 16750387 / 2147483648, False),
   (5414015 / 16777216, 9341561 / 1073741824, False),
   (5559977 / 16777216, 10307929 / 1073741824, False),
   (11442077 / 33554432, 11274297 / 1073741824, False),
   (11794399 / 33554432, 12240665 / 1073741824, False),
   (1522115 / 4194304, 13207033 / 1073741824, False),
   (1573705 / 4194304, 14173401 / 1073741824, False),
   (13032559 / 33554432, 15139769 / 1073741824, False),
   (13505677 / 33554432, 16106137 / 1073741824, False),
   (7004497 / 16777216, 2134063 / 134217728, False),
   (7271255 / 16777216, 2254859 / 134217728, False),
   (15106225 / 33554432, 2375655 / 134217728, False),
   (15700139 / 33554432, 2496451 / 134217728, False),
   (4081063 / 8388608, 2617247 / 134217728, False),
   (4244641 / 8388608, 2738043 / 134217728, False),
   (8831537 / 16777216, 2858839 / 134217728, False),
   (2297223 / 4194304, 2979635 / 134217728, False),
   (4780673 / 8388608, 3100431 / 134217728, False),
   (2487225 / 4194304, 3221227 / 134217728, False),
   (10351553 / 16777216, 3342023 / 134217728, False),
   (5384653 / 8388608, 3462819 / 134217728, False),
   (5601079 / 8388608, 3583615 / 134217728, False),
   (5825055 / 8388608, 3704411 / 134217728, False),
   (12113161 / 16777216, 3825207 / 134217728, False),
   (786957 / 1048576, 3946003 / 134217728, False),
   (6542281 / 8388608, 4066799 / 134217728, False),
   (849557 / 1048576, 4187595 / 134217728, False),
   (13421773 / 16777216, 0, True)]"

section \<open>Rounding: basic facts\<close>

lemma rne_of_int: "rne (of_int n) = n"
  by (simp add: rne_def)

lemma rne_bounds: "\<lfloor>r\<rfloor> \<le> rne r" "rne r \<le> \<lfloor>r\<rfloor> + 1"
  by (simp_all add: rne_def Let_def)

lemma rne_mono: assumes "x \<le> y" shows "rne x \<le> rne y"
proof (cases "\<lfloor>x\<rfloor> = \<lfloor>y\<rfloor>")
  case True
  with assms show ?thesis
    by (auto simp: rne_def Let_def)
next
  case False
  with assms have "\<lfloor>x\<rfloor> + 1 \<le> \<lfloor>y\<rfloor>"
    using floor_mono[OF assms] by linarith
  with rne_bounds(2)[of x] rne_bounds(1)[of y] show ?thesis
    by linarith
qed

lemma expo_bounds: assumes "0 < r"
  shows "2 powi (expo r) \<le> r" "r < 2 powi (expo r + 1)"
proof -
  have "2 powi (expo r) \<le> r \<and> r < 2 powi (expo r + 1)"
  proof (cases "1 \<le> r")
    case True
    define n where "n = \<lfloor>r\<rfloor>"
    have n: "0 < n" using True by (simp add: n_def)
    have bl: "1 \<le> bitlen n" using n by (simp add: bitlen_alt_def)
    have e: "expo r = bitlen n - 1" using True by (simp add: expo_def n_def)
    from bitlen_bounds[OF n] have b1: "2 ^ nat (bitlen n - 1) \<le> n" and b2: "n < 2 ^ nat (bitlen n)"
      by auto
    have "(2::rat) powi (bitlen n - 1) = of_int (2 ^ nat (bitlen n - 1))"
      using bl by (simp add: power_int_def)
    also have "\<dots> \<le> of_int n" using b1 by (simp only: of_int_le_iff)
    also have "\<dots> \<le> r" by (simp add: n_def)
    finally have A: "2 powi (expo r) \<le> r" by (simp add: e)
    have "n + 1 \<le> 2 ^ nat (bitlen n)" using b2 by simp
    then have "(of_int (n + 1) :: rat) \<le> of_int (2 ^ nat (bitlen n))" by (simp only: of_int_le_iff)
    moreover have "r < of_int (n + 1)" by (simp add: n_def, linarith)
    ultimately have "r < of_int (2 ^ nat (bitlen n))" by linarith
    also have "\<dots> = 2 powi (bitlen n)" using bl by (simp add: power_int_def)
    finally have "r < 2 powi (expo r + 1)" by (simp add: e)
    with A show ?thesis by simp
  next
    case False
    define y where "y = 1 / r"
    define m where "m = \<lceil>y\<rceil> - 1"
    have y: "1 < y" using False assms by (simp add: y_def)
    then have m: "0 < m" by (simp add: m_def, linarith?)
    have bl: "1 \<le> bitlen m" using m by (simp add: bitlen_alt_def)
    have e: "expo r = - bitlen m" using False by (simp add: expo_def m_def y_def)
    from bitlen_bounds[OF m] have b1: "2 ^ nat (bitlen m - 1) \<le> m" and b2: "m < 2 ^ nat (bitlen m)"
      by auto
    have "y \<le> of_int (m + 1)" by (simp add: m_def, linarith?)
    also have "\<dots> \<le> of_int (2 ^ nat (bitlen m))" using b2 by (simp only: of_int_le_iff)
    also have "\<dots> = 2 ^ nat (bitlen m)" by simp
    finally have "1 / 2 ^ nat (bitlen m) \<le> 1 / y" using y by (simp add: frac_le)
    moreover have "(2::rat) powi (- bitlen m) = 1 / 2 ^ nat (bitlen m)"
      using bl by (simp add: power_int_def power_one_over)
    ultimately have A: "2 powi (expo r) \<le> r" unfolding e by (simp add: y_def)
    have "(2::rat) ^ nat (bitlen m - 1) = of_int (2 ^ nat (bitlen m - 1))" by simp
    also have "\<dots> \<le> of_int m" using b1 by (simp only: of_int_le_iff)
    also have "\<dots> < y" by (simp add: m_def, linarith?)
    finally have "1 / y < 1 / 2 ^ nat (bitlen m - 1)" using y by (simp add: frac_less2)
    moreover have "(2::rat) powi (- bitlen m + 1) = 1 / 2 ^ nat (bitlen m - 1)"
      using bl by (cases "bitlen m = 1") (auto simp: power_int_def power_one_over)
    ultimately have "r < 2 powi (expo r + 1)" unfolding e by (simp add: y_def)
    with A show ?thesis by simp
  qed
  then show "2 powi (expo r) \<le> r" "r < 2 powi (expo r + 1)" by simp_all
qed

lemma expo_mono: assumes "0 < x" "x \<le> y" shows "expo x \<le> expo y"
proof (rule ccontr)
  assume "\<not> expo x \<le> expo y"
  then have "expo y + 1 \<le> expo x" by simp
  then have "(2::rat) powi (expo y + 1) \<le> 2 powi (expo x)"
    by (intro power_int_increasing) simp_all
  with expo_bounds(2)[of y] expo_bounds(1)[of x] assms show False by linarith
qed

lemma round_to_pos:
  assumes "0 < r"
  shows "round_to p r = of_int (rne (r / 2 powi (expo r - int p + 1))) * 2 powi (expo r - int p + 1)"
  using assms by (simp add: round_to_def Let_def)

lemma round_to_pos_bounds:
  assumes "0 < r" "0 < p"
  shows "2 powi (expo r) \<le> round_to p r" "round_to p r \<le> 2 powi (expo r + 1)"
proof -
  define q :: rat where "q = 2 powi (expo r - int p + 1)"
  have q: "0 < q" by (simp add: q_def)
  have lo: "2 powi (expo r) = of_int (2 ^ (p - 1)) * q"
  proof -
    have "int (p - 1) = int p - 1" using assms(2) by simp
    then have "(2::rat) powi (expo r) = 2 powi (int (p - 1) + (expo r - int p + 1))"
      by simp
    also have "\<dots> = 2 powi (int (p - 1)) * q"
      unfolding q_def by (rule power_int_add) simp
    finally show ?thesis by simp
  qed
  have hi: "2 powi (expo r + 1) = of_int (2 ^ p) * q"
  proof -
    have "(2::rat) powi (expo r + 1) = 2 powi (int p + (expo r - int p + 1))"
      by simp
    also have "\<dots> = 2 powi (int p) * q"
      unfolding q_def by (rule power_int_add) simp
    finally show ?thesis by simp
  qed
  have "of_int (2 ^ (p - 1)) \<le> r / q"
    using expo_bounds(1)[OF assms(1)] q unfolding lo by (simp add: pos_le_divide_eq)
  from rne_mono[OF this] have A: "2 ^ (p - 1) \<le> rne (r / q)"
    by (simp only: rne_of_int)
  have "r / q \<le> of_int (2 ^ p)"
    using expo_bounds(2)[OF assms(1)] q unfolding hi by (simp add: pos_divide_le_eq)
  from rne_mono[OF this] have B: "rne (r / q) \<le> 2 ^ p"
    by (simp only: rne_of_int)
  have R: "round_to p r = of_int (rne (r / q)) * q"
    unfolding q_def by (rule round_to_pos[OF assms(1)])
  from A have "(of_int (2 ^ (p - 1)) :: rat) \<le> of_int (rne (r / q))"
    by (simp only: of_int_le_iff)
  then show "2 powi (expo r) \<le> round_to p r"
    unfolding lo R using q by (simp only: mult_le_cancel_right_pos)
  from B have "(of_int (rne (r / q)) :: rat) \<le> of_int (2 ^ p)"
    by (simp only: of_int_le_iff)
  then show "round_to p r \<le> 2 powi (expo r + 1)"
    unfolding hi R using q by (simp only: mult_le_cancel_right_pos)
qed

lemma round_to_pos_mono:
  assumes "0 < x" "x \<le> y" "0 < p"
  shows "round_to p x \<le> round_to p y"
proof (cases "expo x = expo y")
  case True
  define q :: rat where "q = 2 powi (expo y - int p + 1)"
  have q: "0 < q" by (simp add: q_def)
  have "x / q \<le> y / q" using assms(2) q by (simp add: divide_right_mono)
  then have "(of_int (rne (x / q)) :: rat) \<le> of_int (rne (y / q))"
    by (simp only: of_int_le_iff rne_mono)
  then have "of_int (rne (x / q)) * q \<le> of_int (rne (y / q)) * q"
    using q by (simp only: mult_le_cancel_right_pos)
  moreover have "0 < y" using assms by linarith
  ultimately show ?thesis
    using assms(1) True by (simp add: round_to_pos q_def)
next
  case False
  have y: "0 < y" using assms by linarith
  from False expo_mono[OF assms(1,2)] have "expo x + 1 \<le> expo y" by simp
  then have "(2::rat) powi (expo x + 1) \<le> 2 powi (expo y)"
    by (intro power_int_increasing) simp_all
  with round_to_pos_bounds(2)[OF assms(1,3)] round_to_pos_bounds(1)[OF y assms(3)]
  show ?thesis by linarith
qed

lemma round_to_minus: "round_to p (- r) = - round_to p r"
  by (simp add: round_to_def Let_def)

lemma round_to_pos_gt0: assumes "0 < r" "0 < p" shows "0 < round_to p r"
proof -
  have "(0::rat) < 2 powi (expo r)" by simp
  with round_to_pos_bounds(1)[OF assms] show ?thesis by linarith
qed

lemma round_to_mono:
  assumes "x \<le> y" "0 < p"
  shows "round_to p x \<le> round_to p y"
proof -
  consider "0 < x" | "x \<le> 0" "0 \<le> y" | "y < 0" using assms(1) by linarith
  then show ?thesis
  proof cases
    case 1
    then show ?thesis using assms by (rule round_to_pos_mono)
  next
    case 2
    have "round_to p x \<le> 0"
    proof (cases "x = 0")
      case True then show ?thesis by (simp add: round_to_def)
    next
      case False
      with 2 have "0 < - x" by simp
      from round_to_pos_gt0[OF this assms(2)] show ?thesis by (simp add: round_to_minus)
    qed
    moreover have "0 \<le> round_to p y"
    proof (cases "y = 0")
      case True then show ?thesis by (simp add: round_to_def)
    next
      case False
      with 2 have "0 < y" by simp
      from round_to_pos_gt0[OF this assms(2)] show ?thesis by simp
    qed
    ultimately show ?thesis by linarith
  next
    case 3
    then have "0 < - y" "- y \<le> - x" using assms(1) by simp_all
    from round_to_pos_mono[OF this assms(2)] show ?thesis by (simp add: round_to_minus)
  qed
qed

lemma fl32_mono: "x \<le> y \<Longrightarrow> fl32 x \<le> fl32 y"
  by (simp add: fl32_def round_to_mono)

lemma fl64_mono: "x \<le> y \<Longrightarrow> fl64 x \<le> fl64 y"
  by (simp add: fl64_def round_to_mono)


lemma fl64_less_imp: "fl64 x < fl64 y \<Longrightarrow> x < y"
  using fl64_mono[of y x] by (cases "x < y") simp_all

lemma fl_zero: "fl32 0 = 0" "fl64 0 = 0"
  by (simp_all add: round_to_def fl32_def fl64_def)

subsection \<open>Evaluating a rounding on numerals\<close>

lemma floor_rat_numeral: "\<lfloor>numeral a / numeral b :: rat\<rfloor> = numeral a div numeral b"
  using floor_divide_of_int_eq[of "numeral a" "numeral b", where ?'a = rat] by simp

lemma ceiling_rat_numeral: "\<lceil>numeral a / numeral b :: rat\<rceil> = - (- numeral a div numeral b)"
  using ceiling_divide_eq_div[of "numeral a" "numeral b", where ?'a = rat] by simp

lemma bitlen_numeral:
  "bitlen 1 = 1"
  "bitlen (numeral Num.One) = 1"
  "bitlen (numeral (Num.Bit0 n)) = bitlen (numeral n) + 1"
  "bitlen (numeral (Num.Bit1 n)) = bitlen (numeral n) + 1"
  "bitlen (- numeral n) = 0"
proof -
  show "bitlen 1 = 1" "bitlen (numeral Num.One) = 1"
    by (simp_all add: compute_bitlen)
  have "numeral (Num.Bit0 n) div (2::int) = numeral n" by simp
  then show "bitlen (numeral (Num.Bit0 n)) = bitlen (numeral n) + 1"
    by (subst compute_bitlen) simp
  have "numeral (Num.Bit1 n) div (2::int) = numeral n" by simp
  then show "bitlen (numeral (Num.Bit1 n)) = bitlen (numeral n) + 1"
    by (subst compute_bitlen) simp
  show "bitlen (- numeral n) = 0"
    by (simp add: bitlen_eq_zero_iff)
qed

lemmas fl_eval = fl32_def fl64_def round_to_def expo_def rne_def Let_def bitlen_numeral
  floor_rat_numeral ceiling_rat_numeral

lemma const_values:
  "SPRAY_WIDTH = 13421773 / 33554432"
  "PELICAN_WIDTH = 13421773 / 67108864"
  "WAVE_SPEED = 13421773 / 33554432"
  "BOAT_POS_X = 13421773 / 134217728"
  "BOAT_WIDTH = 13421773 / 67108864"
  "SEA_LEVEL = 13421773 / 16777216"
  "GRAVITY = 7730941 / 8589934592"
  "pi_double = 884279719003555 / 281474976710656"
  by (simp_all add: SPRAY_WIDTH_def PELICAN_WIDTH_def WAVE_SPEED_def BOAT_POS_X_def
      BOAT_WIDTH_def SEA_LEVEL_def GRAVITY_def pi_double_def fl_eval)

section \<open>The frame, field by field\<close>

lemma detect_fields:
  "boatPosY (detect s) = boatPosY s" "boatVelY (detect s) = boatVelY s"
  "grounded (detect s) = grounded s" "objects (detect s) = objects s"
  "interval (detect s) = interval s" "time (detect s) = time s"
  "gameover (detect s) = (gameover s \<or> collision (objects s) (boatPosY s))"
  by (simp_all add: detect_def)

lemma registry_fields:
  assumes "registry cosd inp s = Some s'"
  shows "boatPosY s' = boatPosY s" "boatVelY s' = boatVelY s" "grounded s' = grounded s"
    "gameover s' = gameover s" "time s' = time s"
  using assms by (auto simp: registry_def split: prod.splits)

lemma vessel_fields:
  "objects (vessel j s) = objects s" "interval (vessel j s) = interval s"
  "time (vessel j s) = time s" "gameover (vessel j s) = gameover s"
  by (simp_all add: vessel_def)

lemma frame_init:
  "frame cosd inp0 (init 0 0) =
     Some ((init 0 0)\<lparr>objects := [Pelican first_pelican], interval := 2\<rparr>)"
  apply (simp add: frame_def init_def inp0_def vessel_def detect_def registry_def spawn_def
      spawn_due_def)
  apply (simp add: Pelican_update_def Pelican_new_def origin_def first_pelican_def const_values
      cast_int_def fl_eval)
  done

section \<open>The invariant of the boat\<close>

lemma vessel_inv_init: "vessel_inv (init t0 t1)"
  by (simp add: vessel_inv_def init_def fl_zero)

lemma vessel_inv_vessel: "vessel_inv s \<Longrightarrow> vessel_inv (vessel j s)"
  by (simp add: vessel_inv_def vessel_def fl_zero)

lemma vessel_inv_frame:
  assumes "vessel_inv s" "frame cosd inp s = Some s'"
  shows "vessel_inv s'"
proof (cases "gameover s")
  case True
  with assms show ?thesis
    by (auto simp: frame_def vessel_inv_def fl_zero split: if_splits)
next
  case False
  let ?v = "vessel (jumpKeyPressed inp) (s\<lparr>time := glfwGetTime inp\<rparr>)"
  from False assms(2) have r: "registry cosd inp (detect ?v) = Some s'"
    by (simp add: frame_def)
  from assms(1) have "vessel_inv (s\<lparr>time := glfwGetTime inp\<rparr>)"
    by (simp add: vessel_inv_def)
  then have "vessel_inv ?v"
    by (rule vessel_inv_vessel)
  then show ?thesis
    using registry_fields(1-3)[OF r] by (simp add: vessel_inv_def detect_fields)
qed

text \<open>
  Claim C4. The invariant \<open>grounded \<Longrightarrow> boatVelY = 0 \<and> boatPosY = SEA_LEVEL\<close> holds in
  the initial state, is preserved by the physics of the boat (the jump and the snap to
  sea level included), and is preserved by every frame that returns, the reset on
  retry included.
\<close>

theorem vessel_invariant:
  "vessel_inv (init t0 t1) \<and> (vessel_inv s \<longrightarrow> vessel_inv (vessel j s))
   \<and> (vessel_inv s \<and> frame cosd inp s = Some s' \<longrightarrow> vessel_inv s')"
proof (intro conjI impI)
  show "vessel_inv (init t0 t1)" by (rule vessel_inv_init)
  show "vessel_inv (vessel j s)" if "vessel_inv s" using that by (rule vessel_inv_vessel)
  show "vessel_inv s'" if "vessel_inv s \<and> frame cosd inp s = Some s'"
    using that vessel_inv_frame by blast
qed

theorem vessel_invariant_witness:
  "vessel_inv (init 0 0) \<and> vessel_inv (vessel True (init 0 0))
   \<and> frame cos_sample inp0 (init 0 0)
       = Some ((init 0 0)\<lparr>objects := [Pelican first_pelican], interval := 2\<rparr>)
   \<and> vessel_inv ((init 0 0)\<lparr>objects := [Pelican first_pelican], interval := 2\<rparr>)"
proof -
  note th = vessel_invariant[where ?t0.0 = 0 and ?t1.0 = 0 and s = "init 0 0" and j = True
      and cosd = cos_sample and inp = inp0
      and s' = "(init 0 0)\<lparr>objects := [Pelican first_pelican], interval := 2\<rparr>"]
  from th have a: "vessel_inv (init 0 0)" by (rule conjunct1)
  from th a have b: "vessel_inv (vessel True (init 0 0))" by blast
  note c = frame_init[of cos_sample]
  from th a c have "vessel_inv ((init 0 0)\<lparr>objects := [Pelican first_pelican], interval := 2\<rparr>)"
    by blast
  with a b c show ?thesis by blast
qed

section \<open>Retry while running\<close>

text \<open>
  Claim C9. In a frame that starts in the running state (\<open>gameover\<close> false) the retry
  key is not read: whatever its value, the frame yields the same result, and so the same
  boat, registry, interval and \<open>gameover\<close> flag.
\<close>

theorem retry_ignored_while_running:
  "\<not> gameover s \<Longrightarrow> frame cosd (inp\<lparr>retryKeyPressed := r\<rparr>) s = frame cosd inp s"
  by (simp add: frame_def spawn_def registry_def)

theorem retry_ignored_while_running_witness:
  "\<not> gameover (init 0 0)
   \<and> frame cos_sample (inp0\<lparr>retryKeyPressed := True\<rparr>) (init 0 0)
     = frame cos_sample inp0 (init 0 0)"
  using retry_ignored_while_running[where s = "init 0 0" and cosd = cos_sample and inp = inp0
      and r = True]
  by (simp add: init_def)

section \<open>Updates are functions of spawn time, time and variant\<close>

text \<open>
  Claim C8. \<^verbatim>\<open>update(t)\<close> overwrites the position, the visibility and (for a pelican)
  the animation index with values computed from \<open>t\<close> and the spawn time alone: two
  objects of the same variant with the same spawn time, whatever their prior position,
  visibility and animation index, are equal after \<open>update\<close> at the same time
  (with the same library cosine).
\<close>

theorem update_deterministic:
  "is_Spray a = is_Spray b \<Longrightarrow> getSpawnTime a = getSpawnTime b
   \<Longrightarrow> update cosd t a = update cosd t b"
  by (cases a; cases b)
    (auto simp: Spray_update_def Pelican_update_def Let_def split: option.splits)

theorem update_deterministic_witness:
  "is_Spray (Pelican first_pelican) = is_Spray (Pelican (Pelican_new 0 origin))
   \<and> getSpawnTime (Pelican first_pelican) = getSpawnTime (Pelican (Pelican_new 0 origin))
   \<and> update cos_sample 1 (Pelican first_pelican)
     = update cos_sample 1 (Pelican (Pelican_new 0 origin))"
  using update_deterministic[where a = "Pelican first_pelican"
      and b = "Pelican (Pelican_new 0 origin)" and cosd = cos_sample and t = 1]
  by (simp add: first_pelican_def Pelican_new_def)

section \<open>Evaluating frames\<close>

lemmas object_eval = Pelican_update_def Pelican_hit_def Pelican_new_def Spray_update_def
  Spray_hit_def Spray_new_def origin_def cos_sample_def cast_int_def const_values

lemma vessel_hit: "vessel False (s_hit\<lparr>time := 65 / 64\<rparr>) = s_hit\<lparr>time := 65 / 64, boatPosY := 9911989 / 33554432, boatVelY := - (8375169 / 2147483648)\<rparr>"
  by (simp add: s_hit_def vessel_def const_values fl_eval)

lemma collision_hit: "collision (objects s_hit) (9911989 / 33554432)"
  by (simp add: s_hit_def object_eval fl_eval)

lemma frame_hit: "frame cosd inp_hit s_hit = Some s_after"
  apply (simp add: frame_def inp_hit_def vessel_hit detect_def collision_hit)
  apply (simp add: registry_def spawn_def spawn_due_def s_hit_def fl_eval)
  apply (simp add: s_after_def object_eval fl_eval)
  done

lemma pelican_at3: "update cosd 3 (Pelican (Pelican_new 1 origin)) = Some pelican_at3"
  by (simp add: pelican_at3_def object_eval fl_eval)

lemma spray_at3_visible: "isVisible spray_at3"
  by (simp add: spray_at3_def Spray_update_def Spray_new_def const_values fl_eval)

section \<open>A hit and the registry\<close>

lemma registry_detect:
  "map_option objects (registry cosd inp (detect s)) = map_option objects (registry cosd inp s)"
  "map_option interval (registry cosd inp (detect s)) = map_option interval (registry cosd inp s)"
  by (simp_all add: registry_def detect_fields option.map_comp comp_def split: prod.splits)

text \<open>
  Claim C2, as the specification states it: in a running frame with a hit the registry
  life cycle does not run and the hazards keep their last computed values. It fails.
  In the frame \<open>inp_hit\<close> from \<open>s_hit\<close> the collision test succeeds and the frame
  sets \<open>gameover\<close>, and the same frame updates the pelican to the new time (its
  position changes), spawns a second hazard and draws a new interval.
\<close>

theorem hit_frame_counterexample: "\<not> gameover s_hit
   \<and> collision (objects (vessel (jumpKeyPressed inp_hit) (s_hit\<lparr>time := glfwGetTime inp_hit\<rparr>)))
         (boatPosY (vessel (jumpKeyPressed inp_hit) (s_hit\<lparr>time := glfwGetTime inp_hit\<rparr>)))
   \<and> frame cos_sample inp_hit s_hit = Some s_after
   \<and> gameover s_after
   \<and> objects s_after \<noteq> objects s_hit
   \<and> length (objects s_after) = length (objects s_hit) + 1
   \<and> interval s_after \<noteq> interval s_hit"
  using frame_hit[of cos_sample] collision_hit vessel_hit
  by (simp add: inp_hit_def) (simp add: s_hit_def s_after_def)

text \<open>
  Claim C2, amended. In a running frame the session goes to game over exactly when the
  collision test, made after the boat has moved, succeeds; the registry and the interval
  that the frame leaves are those of the life cycle (cull, spawn, update at the frame's
  time) run on the state after the boat has moved, whether or not there was a hit;
  and a frame that starts in game over without a retry changes nothing.
\<close>

theorem hit_frame_runs_lifecycle: "(\<not> gameover s \<and> frame cosd inp s = Some s' \<longrightarrow>
      gameover s' = collision (objects (vessel (jumpKeyPressed inp) (s\<lparr>time := glfwGetTime inp\<rparr>)))
         (boatPosY (vessel (jumpKeyPressed inp) (s\<lparr>time := glfwGetTime inp\<rparr>))))
   \<and> (\<not> gameover s \<longrightarrow>
      map_option objects (frame cosd inp s)
        = map_option objects (registry cosd inp (vessel (jumpKeyPressed inp) (s\<lparr>time := glfwGetTime inp\<rparr>)))
      \<and> map_option interval (frame cosd inp s)
        = map_option interval (registry cosd inp (vessel (jumpKeyPressed inp) (s\<lparr>time := glfwGetTime inp\<rparr>))))
   \<and> (gameover s \<and> \<not> retryKeyPressed inp \<longrightarrow> frame cosd inp s = Some s)"
proof (intro conjI impI)
  let ?v = "vessel (jumpKeyPressed inp) (s\<lparr>time := glfwGetTime inp\<rparr>)"
  show "gameover s' = collision (objects ?v) (boatPosY ?v)"
    if "\<not> gameover s \<and> frame cosd inp s = Some s'"
  proof -
    from that have r: "registry cosd inp (detect ?v) = Some s'" by (auto simp: frame_def)
    from that have "\<not> gameover ?v" by (simp add: vessel_fields)
    with registry_fields(4)[OF r] show ?thesis by (simp add: detect_fields)
  qed
  show "map_option objects (frame cosd inp s) = map_option objects (registry cosd inp ?v)"
    if "\<not> gameover s" using that by (simp add: frame_def registry_detect)
  show "map_option interval (frame cosd inp s) = map_option interval (registry cosd inp ?v)"
    if "\<not> gameover s" using that by (simp add: frame_def registry_detect)
  show "frame cosd inp s = Some s" if "gameover s \<and> \<not> retryKeyPressed inp"
    using that by (simp add: frame_def)
qed


theorem hit_frame_runs_lifecycle_witness: "\<not> gameover s_hit \<and> frame cos_sample inp_hit s_hit = Some s_after
  \<and> gameover s_after = collision (objects (vessel (jumpKeyPressed inp_hit) (s_hit\<lparr>time := glfwGetTime inp_hit\<rparr>)))
         (boatPosY (vessel (jumpKeyPressed inp_hit) (s_hit\<lparr>time := glfwGetTime inp_hit\<rparr>)))
  \<and> map_option objects (frame cos_sample inp_hit s_hit)
        = map_option objects (registry cos_sample inp_hit (vessel (jumpKeyPressed inp_hit) (s_hit\<lparr>time := glfwGetTime inp_hit\<rparr>)))
  \<and> gameover s_after \<and> \<not> retryKeyPressed inp_hit
  \<and> frame cos_sample inp_hit s_after = Some s_after"
proof -
  have a: "\<not> gameover s_hit" by (simp add: s_hit_def)
  have b: "gameover s_after" by (simp add: s_after_def)
  have c: "\<not> retryKeyPressed inp_hit" by (simp add: inp_hit_def)
  note d = frame_hit[of cos_sample]
  note t1 = hit_frame_runs_lifecycle[where s = s_hit and inp = inp_hit and cosd = cos_sample and s' = s_after]
  note t2 = hit_frame_runs_lifecycle[where s = s_after and inp = inp_hit and cosd = cos_sample and s' = s_after]
  from t1 a d have e: "gameover s_after = collision (objects (vessel (jumpKeyPressed inp_hit) (s_hit\<lparr>time := glfwGetTime inp_hit\<rparr>)))
         (boatPosY (vessel (jumpKeyPressed inp_hit) (s_hit\<lparr>time := glfwGetTime inp_hit\<rparr>)))"
    by blast
  from t1 a have f: "map_option objects (frame cos_sample inp_hit s_hit)
        = map_option objects (registry cos_sample inp_hit (vessel (jumpKeyPressed inp_hit) (s_hit\<lparr>time := glfwGetTime inp_hit\<rparr>)))"
    by blast
  from t2 b c have g: "frame cos_sample inp_hit s_after = Some s_after" by blast
  from a b c d e f g show ?thesis by blast
qed

section \<open>Culling and the collision test\<close>

lemma collision_iff: "collision obs y \<longleftrightarrow> (\<exists>ob \<in> set obs. hit ob y)"
  by (induction obs) auto

lemma cull_dropWhile: "cull obs = dropWhile (\<lambda>ob. \<not> isVisible ob) obs"
  by (induction obs) auto

text \<open>
  Claim C10. Culling drops the longest prefix of invisible hazards and nothing else:
  when the front element is visible the registry is kept whole, an invisible hazard
  further back included. The collision test is the disjunction of \<open>hit\<close> over every
  element of the registry, with no regard to visibility.
\<close>

theorem cull_front_only: "cull obs = dropWhile (\<lambda>ob. \<not> isVisible ob) obs
   \<and> (isVisible a \<longrightarrow> cull (a # rest) = a # rest)
   \<and> (collision obs y \<longleftrightarrow> (\<exists>ob \<in> set obs. hit ob y))"
  using cull_dropWhile collision_iff by simp

theorem cull_front_only_witness: "isVisible spray_at3 \<and> \<not> isVisible pelican_at3
  \<and> cull [spray_at3, pelican_at3] = [spray_at3, pelican_at3]
  \<and> pelican_at3 \<in> set (cull [spray_at3, pelican_at3])"
proof -
  have b: "\<not> isVisible pelican_at3" by (simp add: pelican_at3_def)
  from cull_front_only[where a = spray_at3 and rest = "[pelican_at3]"] spray_at3_visible
  have "cull [spray_at3, pelican_at3] = [spray_at3, pelican_at3]" by blast
  with spray_at3_visible b show ?thesis by simp
qed


section \<open>The spawn rule\<close>






section \<open>Visibility and spawn order\<close>

lemma Spray_visible_mono:
  assumes "spawnTime a \<le> spawnTime b" "visible (Spray_update cosd t a)"
  shows "visible (Spray_update cosd t b)"
proof -
  from assms(1) have "fl64 (spawnTime a + pi_double) \<le> fl64 (spawnTime b + pi_double)"
    by (intro fl64_mono) simp
  with assms(2) show ?thesis by (simp add: Spray_update_def)
qed

lemma Pelican_x_mono:
  assumes "sa \<le> sb"
  shows "fl32 (fl64 (fl32 1 - fl64 (fl32 (8 / 10) * fl64 (t - sa))))
       \<le> fl32 (fl64 (fl32 1 - fl64 (fl32 (8 / 10) * fl64 (t - sb))))"
proof -
  have c: "0 \<le> fl32 (8 / 10)" using fl32_mono[of 0 "8 / 10"] by (simp add: fl_zero)
  from assms have "fl64 (t - sb) \<le> fl64 (t - sa)" by (intro fl64_mono) simp
  with c have "fl32 (8 / 10) * fl64 (t - sb) \<le> fl32 (8 / 10) * fl64 (t - sa)"
    by (rule mult_left_mono[rotated])
  then have "fl64 (fl32 (8 / 10) * fl64 (t - sb)) \<le> fl64 (fl32 (8 / 10) * fl64 (t - sa))"
    by (rule fl64_mono)
  then show ?thesis by (intro fl32_mono fl64_mono) simp
qed

lemma Pelican_update_Some:
  assumes "Pelican_update t a = Some a'"
  shows "visible a' \<longleftrightarrow>
    - PELICAN_WIDTH \<le> fl32 (fl64 (fl32 1 - fl64 (fl32 (8 / 10) * fl64 (t - spawnTime a))))"
  using assms by (auto simp: Pelican_update_def Let_def split: option.splits)

lemma Pelican_visible_mono:
  assumes "spawnTime a \<le> spawnTime b" "Pelican_update t a = Some a'"
    "Pelican_update t b = Some b'" "visible a'"
  shows "visible b'"
proof -
  from assms(2,4) have "- PELICAN_WIDTH
      \<le> fl32 (fl64 (fl32 1 - fl64 (fl32 (8 / 10) * fl64 (t - spawnTime a))))"
    by (simp only: Pelican_update_Some)
  also note Pelican_x_mono[OF assms(1), of t]
  finally show ?thesis by (simp only: Pelican_update_Some[OF assms(3)])
qed

lemma pelicans_at_1_2:
  "update cosd (6 / 5) (Pelican (Pelican_new 0 origin)) = Some pelican0_at_1_2"
  "update cosd (6 / 5) (Pelican (Pelican_new 1 origin)) = Some pelican1_at_1_2"
  by (simp_all add: pelican0_at_1_2_def pelican1_at_1_2_def object_eval fl_eval)

text \<open>
  Claim C1, as the specification states it: of two hazards of any variants, the one
  spawned earlier becomes invisible no later than the other, so that no invisible hazard
  stays behind a visible front. It fails across variants. A spray spawned at time 0
  and a pelican spawned at time 1 are both updated at time 3: the spray is still visible
  (it lives for \<open>\<pi>\<close> seconds), the pelican is not (it lives for 1.5 seconds), and culling
  leaves both in the registry.
\<close>

theorem mixed_variants_counterexample:
  "getSpawnTime (Spray (Spray_new 0 origin)) < getSpawnTime (Pelican (Pelican_new 1 origin))
   \<and> update cos_sample 3 (Spray (Spray_new 0 origin)) = Some spray_at3
   \<and> update cos_sample 3 (Pelican (Pelican_new 1 origin)) = Some pelican_at3
   \<and> isVisible spray_at3 \<and> \<not> isVisible pelican_at3
   \<and> cull [spray_at3, pelican_at3] = [spray_at3, pelican_at3]"
  using spray_at3_visible pelican_at3[of cos_sample]
  by (simp add: spray_at3_def Spray_new_def Pelican_new_def) (simp add: pelican_at3_def)

text \<open>
  Claim C1, amended: for two hazards of the same variant, \<open>a\<close> spawned no later than
  \<open>b\<close>, and any time \<open>t\<close>: if \<open>a\<close> is visible after \<^verbatim>\<open>update(t)\<close> then so is \<open>b\<close>;
  that is, \<open>a\<close> becomes invisible no later than \<open>b\<close>.
\<close>

theorem same_variant_monotone:
  assumes "is_Spray a = is_Spray b" "getSpawnTime a \<le> getSpawnTime b"
    "update cosd t a = Some a'" "update cosd t b = Some b'" "isVisible a'"
  shows "isVisible b'"
proof (cases a)
  case (Spray oa)
  with assms(1) obtain ob where b: "b = Spray ob" by (cases b) simp_all
  from Spray assms(3) have a': "a' = Spray (Spray_update cosd t oa)" by simp
  from b assms(4) have b': "b' = Spray (Spray_update cosd t ob)" by simp
  from assms(2) Spray b have "spawnTime oa \<le> spawnTime ob" by simp
  moreover from assms(5) a' have "visible (Spray_update cosd t oa)" by simp
  ultimately have "visible (Spray_update cosd t ob)" by (rule Spray_visible_mono)
  with b' show ?thesis by simp
next
  case (Pelican pa)
  with assms(1) obtain pb where b: "b = Pelican pb" by (cases b) simp_all
  from Pelican assms(3) obtain pa' where a': "Pelican_update t pa = Some pa'" "a' = Pelican pa'"
    by auto
  from b assms(4) obtain pb' where b': "Pelican_update t pb = Some pb'" "b' = Pelican pb'"
    by auto
  from assms(2) Pelican b have "spawnTime pa \<le> spawnTime pb" by simp
  moreover from assms(5) a' have "visible pa'" by simp
  ultimately have "visible pb'" using a'(1) b'(1) Pelican_visible_mono by blast
  with b' show ?thesis by simp
qed

theorem same_variant_monotone_witness:
  "is_Spray (Pelican (Pelican_new 0 origin)) = is_Spray (Pelican (Pelican_new 1 origin))
   \<and> getSpawnTime (Pelican (Pelican_new 0 origin)) \<le> getSpawnTime (Pelican (Pelican_new 1 origin))
   \<and> update cos_sample (6 / 5) (Pelican (Pelican_new 0 origin)) = Some pelican0_at_1_2
   \<and> update cos_sample (6 / 5) (Pelican (Pelican_new 1 origin)) = Some pelican1_at_1_2
   \<and> isVisible pelican0_at_1_2 \<and> isVisible pelican1_at_1_2"
proof -
  have a: "is_Spray (Pelican (Pelican_new 0 origin)) = is_Spray (Pelican (Pelican_new 1 origin))"
    and b: "getSpawnTime (Pelican (Pelican_new 0 origin))
      \<le> getSpawnTime (Pelican (Pelican_new 1 origin))"
    by (simp_all add: Pelican_new_def)
  have c: "isVisible pelican0_at_1_2" by (simp add: pelican0_at_1_2_def)
  from same_variant_monotone[OF a b pelicans_at_1_2(1)[of cos_sample]
      pelicans_at_1_2(2)[of cos_sample] c]
  show ?thesis using a b c pelicans_at_1_2 by simp
qed

section \<open>The collision test of the pelican\<close>








section \<open>The arc of a jump\<close>

lemma flight_numeral: "flight (numeral k) s = s # flight (pred_numeral k) (vessel False s)"
  by (simp add: numeral_eq_Suc)

lemma flight_1: "flight 1 s = [s]"
  using flight.simps(2)[of 0 s] by simp

lemma flight_table: "map boat_of (flight 70 (vessel True (init 0 0))) = jump_table"
  by (simp add: boat_of_def jump_table_def init_def flight_numeral flight_1 vessel_def const_values fl_eval)

lemma vessel_boat_of: "boat_of s = boat_of s' \<Longrightarrow> boat_of (vessel j s) = boat_of (vessel j s')"
  by (simp add: boat_of_def vessel_def)

lemma flight_boat_of:
  "boat_of s = boat_of s' \<Longrightarrow> map boat_of (flight n s) = map boat_of (flight n s')"
proof (induction n arbitrary: s s')
  case 0
  show ?case by simp
next
  case (Suc n)
  from Suc.prems have "boat_of (vessel False s) = boat_of (vessel False s')"
    by (rule vessel_boat_of)
  then have "map boat_of (flight n (vessel False s)) = map boat_of (flight n (vessel False s'))"
    by (rule Suc.IH)
  with Suc.prems show ?case by (simp only: flight.simps list.map)
qed

lemma length_flight: "length (flight n s) = n"
  by (induction n arbitrary: s) simp_all

lemma jump_flight:
  assumes "grounded s" "boatPosY s = SEA_LEVEL" "boatVelY s = 0"
  shows "map boat_of (flight 70 (vessel True s)) = jump_table"
proof -
  from assms have "boat_of s = boat_of (init 0 0)"
    by (simp add: boat_of_def init_def fl_zero)
  then have "boat_of (vessel True s) = boat_of (vessel True (init 0 0))"
    by (rule vessel_boat_of)
  from flight_boat_of[OF this] flight_table show ?thesis by simp
qed

lemma table_facts:
  "sorted_wrt (>) (map fst (take 35 jump_table))"
  "sorted_wrt (<) (map fst (drop 34 (take 69 jump_table)))"
  "list_all (\<lambda>b. \<not> snd (snd b)) (take 69 jump_table)"
  "jump_table ! 0 = (SEA_LEVEL, - fl32 (3 / 100), False)"
  "SEA_LEVEL < fst (jump_table ! 68)"
  "jump_table ! 69 = (SEA_LEVEL, 0, True)"
  "length jump_table = 70"
  by (simp_all add: jump_table_def const_values fl_eval)


lemma flight_nth: "k < n \<Longrightarrow> flight n s ! k = (vessel False ^^ k) s"
proof (induction n arbitrary: s k)
  case 0
  then show ?case by simp
next
  case (Suc n)
  show ?case
  proof (cases k)
    case 0
    then show ?thesis by simp
  next
    case (Suc k')
    with Suc.prems have "k' < n" by simp
    from Suc.IH[OF this] Suc show ?thesis by (simp add: funpow_swap1)
  qed
qed

lemma jump_frame:
  assumes "grounded s" "boatPosY s = SEA_LEVEL" "boatVelY s = 0" "k < 70"
  shows "boat_of ((vessel False ^^ k) (vessel True s)) = jump_table ! k"
proof -
  from assms(4) have "boat_of (flight 70 (vessel True s) ! k)
      = map boat_of (flight 70 (vessel True s)) ! k"
    by (simp add: length_flight)
  with jump_flight[OF assms(1-3)] flight_nth[OF assms(4)] show ?thesis by simp
qed

lemma table_down: "i < 34 \<Longrightarrow> fst (jump_table ! Suc i) < fst (jump_table ! i)"
proof -
  assume i: "i < 34"
  from table_facts(1) have "\<forall>a b. a < b \<longrightarrow> b < 35 \<longrightarrow>
      map fst (take 35 jump_table) ! a > map fst (take 35 jump_table) ! b"
    by (simp add: sorted_wrt_iff_nth_less table_facts(7))
  with i have "map fst (take 35 jump_table) ! i > map fst (take 35 jump_table) ! Suc i"
    by simp
  with i show ?thesis by (simp add: table_facts(7))
qed

lemma table_up: "34 \<le> i \<Longrightarrow> i < 68 \<Longrightarrow> fst (jump_table ! i) < fst (jump_table ! Suc i)"
proof -
  assume i: "34 \<le> i" "i < 68"
  let ?xs = "map fst (drop 34 (take 69 jump_table))"
  have l: "length ?xs = 35" by (simp add: table_facts(7))
  from table_facts(2) have "\<forall>a b. a < b \<longrightarrow> b < 35 \<longrightarrow> ?xs ! a < ?xs ! b"
    by (simp only: sorted_wrt_iff_nth_less l)
  with i have "?xs ! (i - 34) < ?xs ! (Suc i - 34)" by simp
  with i show ?thesis by (simp add: table_facts(7) Suc_diff_le)
qed

lemma table_air: "i \<le> 68 \<Longrightarrow> \<not> snd (snd (jump_table ! i))"
proof -
  assume i: "i \<le> 68"
  from table_facts(3) have "\<forall>n < 69. \<not> snd (snd (take 69 jump_table ! n))"
    by (simp add: list_all_length table_facts(7))
  with i show ?thesis by simp
qed

text \<open>
  Claim C3, as the specification states it: after one jump from rest the positions
  decrease, then increase, and the boat is grounded again on the very frame in which the
  position would have passed sea level, so that no frame sees a position beyond it.
  It fails on the last part. In frame 68 after the jump the boat is still in the air
  at a position strictly beyond sea level (0.8102 against 0.8): the loop tests
  \<^verbatim>\<open>boatPosY > SEA_LEVEL\<close> before it integrates, so the frame that steps past sea level
  keeps the position for its collision test and its drawing, and only frame 69 snaps.
\<close>

theorem jump_overshoot_counterexample:
  "boat_of ((vessel False ^^ 68) (vessel True (init 0 0)))
     = (849557 / 1048576, 4187595 / 134217728, False)
   \<and> SEA_LEVEL < 849557 / 1048576
   \<and> boat_of ((vessel False ^^ 69) (vessel True (init 0 0))) = (SEA_LEVEL, 0, True)"
proof -
  have a: "grounded (init 0 0)" "boatPosY (init 0 0) = SEA_LEVEL" "boatVelY (init 0 0) = 0"
    by (simp_all add: init_def fl_zero)
  have "jump_table ! 68 = (849557 / 1048576, 4187595 / 134217728, False)"
    by (simp add: jump_table_def)
  with jump_frame[OF a, of 68] jump_frame[OF a, of 69] table_facts(6) show ?thesis
    by (simp add: const_values)
qed

text \<open>
  Claim C3, amended. From rest at sea level, one frame with the jump key down and then
  frames with the key up: the position is still sea level in the frame of the jump,
  strictly decreases from each frame to the next up to frame 34, strictly increases from
  frame 34 up to frame 68, where it is strictly beyond sea level with the boat still in
  the air (frames 0 to 68 are all airborne); in frame 69 the boat is grounded, at exactly
  sea level, with velocity 0.
\<close>

theorem jump_arc:
  assumes "grounded s" "boatPosY s = SEA_LEVEL" "boatVelY s = 0"
  shows "(\<forall>k. k < 34 \<longrightarrow> boatPosY ((vessel False ^^ Suc k) (vessel True s))
                           < boatPosY ((vessel False ^^ k) (vessel True s)))
    \<and> (\<forall>k. 34 \<le> k \<and> k < 68 \<longrightarrow> boatPosY ((vessel False ^^ k) (vessel True s))
                           < boatPosY ((vessel False ^^ Suc k) (vessel True s)))
    \<and> (\<forall>k. k \<le> 68 \<longrightarrow> \<not> grounded ((vessel False ^^ k) (vessel True s)))
    \<and> boatPosY (vessel True s) = SEA_LEVEL
    \<and> SEA_LEVEL < boatPosY ((vessel False ^^ 68) (vessel True s))
    \<and> grounded ((vessel False ^^ 69) (vessel True s))
    \<and> boatPosY ((vessel False ^^ 69) (vessel True s)) = SEA_LEVEL
    \<and> boatVelY ((vessel False ^^ 69) (vessel True s)) = 0"
proof -
  let ?fr = "\<lambda>k. (vessel False ^^ k) (vessel True s)"
  have fr: "boatPosY (?fr k) = fst (jump_table ! k)" "grounded (?fr k) = snd (snd (jump_table ! k))"
    "boatVelY (?fr k) = fst (snd (jump_table ! k))"
    if "k < 70" for k
    using jump_frame[OF assms that, symmetric] by (simp_all add: boat_of_def)
  have "boatPosY (?fr (Suc k)) < boatPosY (?fr k)" if "k < 34" for k
    using that table_down[OF that] by (simp only: fr) 
  moreover have "boatPosY (?fr k) < boatPosY (?fr (Suc k))" if "34 \<le> k \<and> k < 68" for k
    using that table_up[of k] by (simp add: fr del: funpow.simps)
  moreover have "\<not> grounded (?fr k)" if "k \<le> 68" for k
    using that table_air[OF that] by (simp add: fr)
  moreover have "boatPosY (vessel True s) = SEA_LEVEL"
    using fr(1)[of 0] by (simp add: table_facts)
  moreover have "SEA_LEVEL < boatPosY (?fr 68)"
    using table_facts(5) by (simp add: fr)
  moreover have "grounded (?fr 69)" "boatPosY (?fr 69) = SEA_LEVEL" "boatVelY (?fr 69) = 0"
    by (simp_all add: fr table_facts(6))
  ultimately show ?thesis by blast
qed


theorem jump_arc_witness:
  "grounded (init 0 0) \<and> boatPosY (init 0 0) = SEA_LEVEL \<and> boatVelY (init 0 0) = 0
   \<and> boatPosY ((vessel False ^^ Suc 0) (vessel True (init 0 0)))
       < boatPosY ((vessel False ^^ 0) (vessel True (init 0 0)))
   \<and> boatPosY ((vessel False ^^ 34) (vessel True (init 0 0)))
       < boatPosY ((vessel False ^^ Suc 34) (vessel True (init 0 0)))
   \<and> \<not> grounded ((vessel False ^^ 68) (vessel True (init 0 0)))
   \<and> grounded ((vessel False ^^ 69) (vessel True (init 0 0)))"
proof -
  have a: "grounded (init 0 0)" "boatPosY (init 0 0) = SEA_LEVEL" "boatVelY (init 0 0) = 0"
    by (simp_all add: init_def fl_zero)
  note th = jump_arc[OF a]
  note d = th[THEN conjunct1, rule_format, of 0]
  note u = th[THEN conjunct2, THEN conjunct1, rule_format, of 34]
  note g = th[THEN conjunct2, THEN conjunct2, THEN conjunct1, rule_format, of 68]
  note l = th[THEN conjunct2, THEN conjunct2, THEN conjunct2, THEN conjunct2, THEN conjunct2,
      THEN conjunct1]
  have "(0::nat) < 34" "(34::nat) \<le> 34 \<and> (34::nat) < 68" "(68::nat) \<le> 68" by simp_all
  from d[OF this(1)] u[OF this(2)] g[OF this(3)] l a show ?thesis
    by (intro conjI)
qed

end
